theory Spec2Isabelle
  imports Complex_Main "HOL-Library.AList" "HOL-Library.Sublist"
begin

section \<open>The Oracle query class of \<^verbatim>\<open>django/db/backends/oracle/query.py\<close>\<close>

text \<open>
  The module defines one function, \<^verbatim>\<open>query_class(QueryClass, Database)\<close>, which builds
  (and caches in the module-level dictionary \<^verbatim>\<open>_classes\<close>) a subclass \<^verbatim>\<open>OracleQuery\<close> of
  the given query class. The subclass overrides \<^verbatim>\<open>resolve_columns\<close>, \<^verbatim>\<open>convert_values\<close>,
  \<^verbatim>\<open>as_sql\<close>, \<^verbatim>\<open>set_limits\<close> and \<^verbatim>\<open>clear_limits\<close>. Everything the subclass inherits
  (the base class's SQL generation, its limit bookkeeping, name quoting) and everything it
  imports (the driver module, the field classes, \<^verbatim>\<open>util.typecast_decimal\<close>) lives outside
  this file and is a parameter of the model.
\<close>

subsection \<open>Exceptions\<close>

datatype error =
    TypeError
  | AttributeError
  | ValueError
  | IndexError
  | OtherError string

subsection \<open>Python values as the driver hands them over\<close>

record datetime =
  year :: int
  month :: int
  day :: int
  hour :: int
  minute :: int
  second :: int
  microsecond :: int

record date =
  date_year :: int
  date_month :: int
  date_day :: int

record time =
  time_hour :: int
  time_minute :: int
  time_second :: int
  time_microsecond :: int

text \<open>
  The driver's own timestamp object (the one cx\_Oracle returns under Python 2.3); the source
  reads \<^verbatim>\<open>year, month, day, hour, minute, second, fsecond\<close> from it.
\<close>

record timestamp =
  ts_year :: int
  ts_month :: int
  ts_day :: int
  ts_hour :: int
  ts_minute :: int
  ts_second :: int
  ts_fsecond :: int

text \<open>
  A class object that the driver module exports as a type marker: either the standard
  \<^verbatim>\<open>datetime.datetime\<close> (what \<^verbatim>\<open>cx_Oracle.Timestamp\<close> is on newer Pythons) or a class the
  driver defines itself, identified by its name.
\<close>

datatype pyclass = DatetimeClass | DriverClass string

datatype pyvalue =
    VNone
  | VBool bool
  | VInt int
  | VFloat real
  | VDecimal int int
  | VStr string
  | VUnicode string
  | VDate date
  | VTime time
  | VDateTime datetime
  | VLob string string
  | VTimestamp string timestamp

text \<open>
  \<open>VDecimal m e\<close> is the decimal number \<open>m * 10 ^ e\<close>. \<open>VLob c s\<close> is a large-object handle
  of the driver class named \<open>c\<close> whose \<^verbatim>\<open>read()\<close> yields the string \<open>s\<close>. \<open>VTimestamp c t\<close>
  is a timestamp object of the driver class named \<open>c\<close>.
\<close>

fun isinstance :: "pyvalue \<Rightarrow> pyclass \<Rightarrow> bool" where
  "isinstance (VDateTime _) DatetimeClass = True"
| "isinstance (VLob c _) (DriverClass c') = (c = c')"
| "isinstance (VTimestamp c _) (DriverClass c') = (c = c')"
| "isinstance _ _ = False"

text \<open>The driver module passed to \<^verbatim>\<open>query_class\<close>: only its two type markers are used.\<close>

record database =
  LOB :: pyclass
  Timestamp :: pyclass

text \<open>\<^verbatim>\<open>value.read()\<close>: only large-object handles have the method.\<close>

fun lob_read :: "pyvalue \<Rightarrow> error + pyvalue" where
  "lob_read (VLob _ s) = Inr (VStr s)"
| "lob_read _ = Inl AttributeError"

subsection \<open>Field descriptors\<close>

text \<open>
  The field classes that \<^verbatim>\<open>convert_values\<close> tests with \<^verbatim>\<open>isinstance\<close>; any other subclass
  of \<^verbatim>\<open>Field\<close> is \<open>OtherField\<close>. \<^verbatim>\<open>DateTimeField\<close> subclasses \<^verbatim>\<open>DateField\<close> (the source's
  comment says so), which \<open>is_DateField\<close> records.
\<close>

datatype field_class =
    DateField
  | DateTimeField
  | TimeField
  | BooleanField
  | NullBooleanField
  | DecimalField
  | OtherField

record field =
  field_class :: field_class
  empty_strings_allowed :: bool
  db_column :: "string option"
  column :: string
  format_number :: "pyvalue \<Rightarrow> error + string"

text \<open>
  A field argument is \<open>None\<close> (Python's \<^verbatim>\<open>None\<close>) or \<open>Some f\<close>; \<^verbatim>\<open>isinstance(None, C)\<close> is
  false for every field class.
\<close>

fun is_Field :: "field option \<Rightarrow> bool" where
  "is_Field None = False"
| "is_Field (Some f) = True"

fun is_DateTimeField :: "field option \<Rightarrow> bool" where
  "is_DateTimeField None = False"
| "is_DateTimeField (Some f) = (field_class f = DateTimeField)"

fun is_DateField :: "field option \<Rightarrow> bool" where
  "is_DateField None = False"
| "is_DateField (Some f) = (field_class f = DateField \<or> field_class f = DateTimeField)"

fun is_TimeField :: "field option \<Rightarrow> bool" where
  "is_TimeField None = False"
| "is_TimeField (Some f) = (field_class f = TimeField)"

fun is_BooleanField :: "field option \<Rightarrow> bool" where
  "is_BooleanField None = False"
| "is_BooleanField (Some f) = (field_class f = BooleanField \<or> field_class f = NullBooleanField)"

fun is_DecimalField :: "field option \<Rightarrow> bool" where
  "is_DecimalField None = False"
| "is_DecimalField (Some f) = (field_class f = DecimalField)"

subsection \<open>\<^verbatim>\<open>convert_values\<close>\<close>

text \<open>\<^verbatim>\<open>value in (1, 0)\<close>: membership by \<^verbatim>\<open>==\<close>, so booleans and equal numbers are in.\<close>

fun dec_eq_int :: "int \<Rightarrow> int \<Rightarrow> int \<Rightarrow> bool" where
  "dec_eq_int m e k = (if 0 \<le> e then m * 10 ^ nat e = k else m = k * 10 ^ nat (- e))"

fun in_1_0 :: "pyvalue \<Rightarrow> bool" where
  "in_1_0 (VBool b) = True"
| "in_1_0 (VInt n) = (n = 1 \<or> n = 0)"
| "in_1_0 (VFloat r) = (r = 1 \<or> r = 0)"
| "in_1_0 (VDecimal m e) = (dec_eq_int m e 1 \<or> dec_eq_int m e 0)"
| "in_1_0 _ = False"

text \<open>\<^verbatim>\<open>bool(value)\<close> on the values that pass \<open>in_1_0\<close>.\<close>

fun py_bool :: "pyvalue \<Rightarrow> bool" where
  "py_bool (VBool b) = b"
| "py_bool (VInt n) = (n \<noteq> 0)"
| "py_bool (VFloat r) = (r \<noteq> 0)"
| "py_bool (VDecimal m e) = (m \<noteq> 0)"
| "py_bool _ = True"

text \<open>
  The constructor \<^verbatim>\<open>datetime.datetime(y, m, d, H, M, S, us)\<close> raises \<^verbatim>\<open>ValueError\<close> when a
  component is out of range.
\<close>

definition is_leap :: "int \<Rightarrow> bool" where
  "is_leap y = (y mod 4 = 0 \<and> (y mod 100 \<noteq> 0 \<or> y mod 400 = 0))"

definition days_in_month :: "int \<Rightarrow> int \<Rightarrow> int" where
  "days_in_month y m =
     (if m = 2 then (if is_leap y then 29 else 28)
      else if m = 4 \<or> m = 6 \<or> m = 9 \<or> m = 11 then 30 else 31)"

definition datetime_datetime :: "int \<Rightarrow> int \<Rightarrow> int \<Rightarrow> int \<Rightarrow> int \<Rightarrow> int \<Rightarrow> int \<Rightarrow> error + datetime" where
  "datetime_datetime y mo d h mi s us =
     (if 1 \<le> y \<and> y \<le> 9999 \<and> 1 \<le> mo \<and> mo \<le> 12 \<and> 1 \<le> d \<and> d \<le> days_in_month y mo
         \<and> 0 \<le> h \<and> h < 24 \<and> 0 \<le> mi \<and> mi < 60 \<and> 0 \<le> s \<and> s < 60 \<and> 0 \<le> us \<and> us < 1000000
      then Inr \<lparr>year = y, month = mo, day = d, hour = h, minute = mi, second = s, microsecond = us\<rparr>
      else Inl ValueError)"

text \<open>
  Lines 65--68: a value that passed \<^verbatim>\<open>isinstance(value, Database.Timestamp)\<close> and is not a
  \<^verbatim>\<open>datetime.datetime\<close> is rebuilt as one from its components.
\<close>

fun to_datetime :: "pyvalue \<Rightarrow> error + datetime" where
  "to_datetime (VDateTime dt) = Inr dt"
| "to_datetime (VTimestamp c t) =
     datetime_datetime (ts_year t) (ts_month t) (ts_day t) (ts_hour t) (ts_minute t)
       (ts_second t) (ts_fsecond t)"
| "to_datetime _ = Inl AttributeError"

definition date_of :: "datetime \<Rightarrow> date" where
  "date_of dt = \<lparr>date_year = year dt, date_month = month dt, date_day = day dt\<rparr>"

definition time_of :: "datetime \<Rightarrow> time" where
  "time_of dt = \<lparr>time_hour = hour dt, time_minute = minute dt, time_second = second dt,
     time_microsecond = microsecond dt\<rparr>"

text \<open>Lines 69--78: the cast chosen from the field's class, else from the value.\<close>

definition cast_timestamp :: "datetime \<Rightarrow> field option \<Rightarrow> pyvalue" where
  "cast_timestamp dt fld =
     (if is_DateTimeField fld then VDateTime dt
      else if is_DateField fld then VDate (date_of dt)
      else if is_TimeField fld \<or> (year dt = 1900 \<and> month dt = day dt \<and> day dt = 1)
        then VTime (time_of dt)
      else if hour dt = minute dt \<and> minute dt = second dt \<and> second dt = microsecond dt
           \<and> microsecond dt = 0
        then VDate (date_of dt)
      else VDateTime dt)"

text \<open>
  \<^verbatim>\<open>util.typecast_decimal\<close> is imported from another module; it is the parameter \<open>tcd\<close>.
  \<^verbatim>\<open>field.format_number\<close> is the field's own method.
\<close>

definition convert_values ::
  "(string \<Rightarrow> error + pyvalue) \<Rightarrow> database \<Rightarrow> pyvalue \<Rightarrow> field option \<Rightarrow> error + pyvalue" where
  "convert_values tcd Database value0 fld =
     (case (if isinstance value0 (LOB Database) then lob_read value0 else Inr value0) of
        Inl e \<Rightarrow> Inl e
      | Inr val \<Rightarrow>
          if val = VNone \<and> is_Field fld \<and> empty_strings_allowed (the fld) then Inr (VUnicode [])
          else if in_1_0 val \<and> is_BooleanField fld then Inr (VBool (py_bool val))
          else if val \<noteq> VNone \<and> is_DecimalField fld then
            (case format_number (the fld) val of Inl e \<Rightarrow> Inl e | Inr s \<Rightarrow> tcd s)
          else if isinstance val (Timestamp Database) then
            (case to_datetime val of Inl e \<Rightarrow> Inl e | Inr dt \<Rightarrow> Inr (cast_timestamp dt fld))
          else Inr val)"

subsection \<open>The query object\<close>

text \<open>
  \<^verbatim>\<open>self.model._meta\<close>: the table name and the declared fields, in order (\<open>fields\<close> is
  a name the record package keeps for itself, hence \<open>meta_fields\<close>).
\<close>

record options =
  db_table :: string
  meta_fields :: "field list"

text \<open>
  The attributes of the query object that \<^verbatim>\<open>OracleQuery\<close> reads or writes. \<open>extra_select\<close>
  is an ordered dictionary, kept as an association list: assignment replaces the value of a
  key that is there and appends a new key at the end (\<open>AList.update\<close>), \<^verbatim>\<open>del\<close> removes the
  key (\<open>AList.delete\<close>). \<open>low_mark\<close> and \<open>high_mark\<close> are integers or \<^verbatim>\<open>None\<close>. \<open>rest\<close>
  stands for every other attribute of the base class (aliases, joins, caches).
\<close>

record 'b query =
  low_mark :: "int option"
  high_mark :: "int option"
  extra_select :: "(string \<times> string) list"
  meta :: options
  rest :: 'b

definition keys :: "('k \<times> 'v) list \<Rightarrow> 'k list" where
  "keys d = map fst d"

subsection \<open>\<^verbatim>\<open>resolve_columns\<close>\<close>

text \<open>
  Python 2's \<^verbatim>\<open>map(None, xs, ys)\<close> pairs the two sequences positionally and fills the
  shorter one with \<^verbatim>\<open>None\<close>.
\<close>

fun map_None :: "pyvalue list \<Rightarrow> field list \<Rightarrow> (pyvalue \<times> field option) list" where
  "map_None [] [] = []"
| "map_None (v # vs) [] = (v, None) # map_None vs []"
| "map_None [] (f # fs) = (VNone, Some f) # map_None [] fs"
| "map_None (v # vs) (f # fs) = (v, Some f) # map_None vs fs"

text \<open>
  The list comprehension of line 30 and the loop of lines 31--32 both run left to right and
  stop at the first conversion that raises; \<open>convert_into\<close> is the loop, with \<open>acc\<close> the list
  \<^verbatim>\<open>values\<close> it appends to.
\<close>

fun convert_into ::
  "(string \<Rightarrow> error + pyvalue) \<Rightarrow> database \<Rightarrow> pyvalue list \<Rightarrow> (pyvalue \<times> field option) list
     \<Rightarrow> error + pyvalue list" where
  "convert_into tcd Database acc [] = Inr acc"
| "convert_into tcd Database acc ((v, f) # ps) =
     (case convert_values tcd Database v f of
        Inl e \<Rightarrow> Inl e
      | Inr w \<Rightarrow> convert_into tcd Database (acc @ [w]) ps)"

definition resolve_columns ::
  "(string \<Rightarrow> error + pyvalue) \<Rightarrow> database \<Rightarrow> 'b query \<Rightarrow> pyvalue list \<Rightarrow> field list
     \<Rightarrow> error + pyvalue list" where
  "resolve_columns tcd Database self row flds =
     (let index_start = length (keys (extra_select self)) in
      case convert_into tcd Database [] (map (\<lambda>v. (v, None)) (take index_start row)) of
        Inl e \<Rightarrow> Inl e
      | Inr vals \<Rightarrow> convert_into tcd Database vals (map_None (drop index_start row) flds))"

subsection \<open>The base class\<close>

text \<open>
  \<^verbatim>\<open>OracleQuery\<close> subclasses whatever \<^verbatim>\<open>QueryClass\<close> it is given and calls the methods below
  on it. None of them is defined in this file, so each is a parameter. A method that takes
  part in SQL generation reads the whole query object, may raise, and may write the base
  class's other attributes (\<open>rest\<close>); the two limit methods write the marks, so they return
  the whole object.
\<close>

record ('b, 'p) QueryClass =
  super_as_sql :: "bool \<Rightarrow> bool \<Rightarrow> 'b query \<Rightarrow> (error + string \<times> 'p list) \<times> 'b"
  pre_sql_setup :: "'b query \<Rightarrow> (error + unit) \<times> 'b"
  get_columns :: "'b query \<Rightarrow> (error + string list) \<times> 'b"
  get_ordering :: "'b query \<Rightarrow> (error + string list) \<times> 'b"
  quote_name_unless_alias :: "string \<Rightarrow> 'b query \<Rightarrow> (error + string) \<times> 'b"
  super_set_limits :: "int option \<Rightarrow> int option \<Rightarrow> 'b query \<Rightarrow> 'b query"
  super_clear_limits :: "'b query \<Rightarrow> 'b query"

text \<open>
  A method of \<^verbatim>\<open>OracleQuery\<close> maps the query object to a result (a value or the exception
  raised) and the object as the call leaves it; attribute writes made before an exception
  stay.
\<close>

definition call :: "('b query \<Rightarrow> (error + 'r) \<times> 'b) \<Rightarrow> 'b query \<Rightarrow> (error + 'r) \<times> 'b query" where
  "call m self = (case m self of (r, b) \<Rightarrow> (r, self\<lparr>rest := b\<rparr>))"

definition bind_exc ::
  "('s \<Rightarrow> (error + 'a) \<times> 's) \<Rightarrow> ('a \<Rightarrow> 's \<Rightarrow> (error + 'c) \<times> 's) \<Rightarrow> 's \<Rightarrow> (error + 'c) \<times> 's" where
  "bind_exc m k s = (case m s of (Inl e, s') \<Rightarrow> (Inl e, s') | (Inr x, s') \<Rightarrow> k x s')"

subsection \<open>Strings\<close>

fun join :: "string \<Rightarrow> string list \<Rightarrow> string" where
  "join sep [] = []"
| "join sep [x] = x"
| "join sep (x # y # ys) = x @ sep @ join sep (y # ys)"

text \<open>\<^verbatim>\<open>'%d' % n\<close> for an integer.\<close>

definition digit :: "nat \<Rightarrow> char" where
  "digit n = ''0123456789'' ! n"

function show_nat :: "nat \<Rightarrow> string" where
  "show_nat n = (if n < 10 then [digit n] else show_nat (n div 10) @ [digit (n mod 10)])"
  by pat_completeness auto
termination
  by (relation "measure id") auto

declare show_nat.simps [simp del]

definition show_int :: "int \<Rightarrow> string" where
  "show_int i = (if i < 0 then CHR ''-'' # show_nat (nat (- i)) else show_nat (nat i))"

text \<open>\<^verbatim>\<open>'%d' % x\<close> raises \<^verbatim>\<open>TypeError\<close> when \<open>x\<close> is \<^verbatim>\<open>None\<close>.\<close>

fun format_d :: "int option \<Rightarrow> error + string" where
  "format_d None = Inl TypeError"
| "format_d (Some n) = Inr (show_int n)"

text \<open>Truth value of a mark: \<^verbatim>\<open>None\<close> and \<open>0\<close> are false.\<close>

fun truthy :: "int option \<Rightarrow> bool" where
  "truthy None = False"
| "truthy (Some n) = (n \<noteq> 0)"

text \<open>\<^verbatim>\<open>a or b\<close> on an optional string: \<^verbatim>\<open>None\<close> and the empty string are false.\<close>

fun py_or :: "string option \<Rightarrow> string \<Rightarrow> string" where
  "py_or None b = b"
| "py_or (Some a) b = (if a = [] then b else a)"

subsection \<open>\<^verbatim>\<open>as_sql\<close>\<close>

text \<open>
  Lines 113--115, the default ordering: \<^verbatim>\<open>qn(opts.db_table)\<close> is evaluated first, then
  \<^verbatim>\<open>opts.fields[0]\<close> (an \<^verbatim>\<open>IndexError\<close> when there is no field), then the second \<^verbatim>\<open>qn\<close>.
\<close>

definition default_orderby :: "('b, 'p) QueryClass \<Rightarrow> 'b query \<Rightarrow> (error + string) \<times> 'b query" where
  "default_orderby B self =
     (let opts = meta self in
      bind_exc (call (quote_name_unless_alias B (db_table opts)))
        (\<lambda>t. case meta_fields opts of
           [] \<Rightarrow> (\<lambda>s. (Inl IndexError, s))
         | f0 # _ \<Rightarrow>
             bind_exc (call (quote_name_unless_alias B (py_or (db_column f0) (column f0))))
               (\<lambda>c s. (Inr (t @ ''.'' @ c), s))) self)"

text \<open>Lines 125--133: the wrapping query, read from the object as the inner call left it.\<close>

definition limit_sql :: "string \<Rightarrow> 'p list \<Rightarrow> 'b query \<Rightarrow> (error + string \<times> 'p list) \<times> 'b query" where
  "limit_sql sql params self =
     (case format_d (low_mark self) of
        Inl e \<Rightarrow> (Inl e, self)
      | Inr low \<Rightarrow>
          let result = [''SELECT * FROM ('' @ sql @ '')'', ''WHERE rn > '' @ low] in
          if truthy (high_mark self) then
            (case format_d (high_mark self) of
               Inl e \<Rightarrow> (Inl e, self)
             | Inr high \<Rightarrow> (Inr (join '' '' (result @ [''AND rn <= '' @ high]), params), self))
          else (Inr (join '' '' result, params), self))"

text \<open>
  Lines 102--119: the base class's set-up, the ordering for \<^verbatim>\<open>ROW_NUMBER()\<close>, and the
  assignment to \<^verbatim>\<open>self.extra_select['rn']\<close>.
\<close>

definition row_number_select :: "('b, 'p) QueryClass \<Rightarrow> 'b query \<Rightarrow> (error + unit) \<times> 'b query" where
  "row_number_select B =
     bind_exc (call (pre_sql_setup B)) (\<lambda>u.
     bind_exc (call (get_columns B)) (\<lambda>out_cols.
     bind_exc (call (get_ordering B)) (\<lambda>ordering.
     bind_exc (if ordering \<noteq> [] then (\<lambda>s. (Inr (join '', '' ordering), s))
               else default_orderby B) (\<lambda>rn_orderby s.
       (Inr (), s\<lparr>extra_select :=
          AList.update ''rn'' (''ROW_NUMBER() OVER (ORDER BY '' @ rn_orderby @ '' )'')
            (extra_select s)\<rparr>)))))"

definition as_sql ::
  "('b, 'p) QueryClass \<Rightarrow> bool \<Rightarrow> bool \<Rightarrow> 'b query \<Rightarrow> (error + string \<times> 'p list) \<times> 'b query" where
  "as_sql B with_limits with_col_aliases self =
     (let do_offset = with_limits \<and> (truthy (high_mark self) \<or> truthy (low_mark self)) in
      if \<not> do_offset then call (super_as_sql B False with_col_aliases) self
      else
        bind_exc (row_number_select B) (\<lambda>u.
        bind_exc (call (super_as_sql B False True)) (\<lambda>(sql, params).
        limit_sql sql params)) self)"

subsection \<open>\<^verbatim>\<open>set_limits\<close> and \<^verbatim>\<open>clear_limits\<close>\<close>

definition set_limits :: "('b, 'p) QueryClass \<Rightarrow> int option \<Rightarrow> int option \<Rightarrow> 'b query \<Rightarrow> 'b query" where
  "set_limits B low high self =
     (let s = super_set_limits B low high self in
      s\<lparr>extra_select := AList.update ''rn'' ''1'' (extra_select s)\<rparr>)"

definition clear_limits :: "('b, 'p) QueryClass \<Rightarrow> 'b query \<Rightarrow> 'b query" where
  "clear_limits B self =
     (let s = super_clear_limits B self in
      if ''rn'' \<in> set (keys (extra_select s))
      then s\<lparr>extra_select := AList.delete ''rn'' (extra_select s)\<rparr>
      else s)"

subsection \<open>\<^verbatim>\<open>query_class\<close> and its cache\<close>

text \<open>
  The class object that one execution of the \<^verbatim>\<open>class OracleQuery(QueryClass)\<close> statement
  creates: its identity, the base class and the driver module its methods close over.
  Base classes are dictionary keys by identity; \<open>'c\<close> is the type of these identities.
\<close>

record 'c OracleQuery =
  class_id :: nat
  base :: 'c
  Database :: database

text \<open>
  The module's state: the dictionary \<^verbatim>\<open>_classes\<close> and the number of class objects created
  so far, which names the next one.
\<close>

record 'c module =
  classes :: "'c \<rightharpoonup> 'c OracleQuery"
  created :: nat

definition query_class :: "'c \<Rightarrow> database \<Rightarrow> 'c module \<Rightarrow> 'c OracleQuery \<times> 'c module" where
  "query_class QueryClass Db m =
     (case classes m QueryClass of
        Some cls \<Rightarrow> (cls, m)
      | None \<Rightarrow>
          let cls = \<lparr>class_id = created m, base = QueryClass, Database = Db\<rparr> in
          (cls, m\<lparr>classes := (classes m)(QueryClass \<mapsto> cls), created := Suc (created m)\<rparr>))"

text \<open>\<^verbatim>\<open>convert_values\<close> as a method of a class that \<open>query_class\<close> returned.\<close>

definition class_convert_values ::
  "(string \<Rightarrow> error + pyvalue) \<Rightarrow> 'c OracleQuery \<Rightarrow> pyvalue \<Rightarrow> field option \<Rightarrow> error + pyvalue" where
  "class_convert_values tcd cls = convert_values tcd (Database cls)"

text \<open>A sequence of calls of \<open>query_class\<close>, results dropped.\<close>

fun query_class_calls :: "('c \<times> database) list \<Rightarrow> 'c module \<Rightarrow> 'c module" where
  "query_class_calls [] m = m"
| "query_class_calls ((c, d) # cs) m = query_class_calls cs (snd (query_class c d m))"

subsection \<open>Sequences of limit operations and compilations\<close>

datatype event = SetLimits "int option" "int option" | ClearLimits | AsSql bool bool

fun step :: "('b, 'p) QueryClass \<Rightarrow> 'b query \<Rightarrow> event \<Rightarrow> 'b query" where
  "step B self (SetLimits low high) = set_limits B low high self"
| "step B self ClearLimits = clear_limits B self"
| "step B self (AsSql wl wa) = snd (as_sql B wl wa self)"

fun run :: "('b, 'p) QueryClass \<Rightarrow> 'b query \<Rightarrow> event list \<Rightarrow> 'b query" where
  "run B self [] = self"
| "run B self (e # es) = run B (step B self e) es"

subsection \<open>The inherited limit methods\<close>

text \<open>
  What the invariant needs of the inherited limit methods: they leave \<open>extra_select\<close> alone,
  and after the inherited \<^verbatim>\<open>clear_limits\<close> neither mark is set to a bound.
\<close>

definition limits_well_behaved :: "('b, 'p) QueryClass \<Rightarrow> bool" where
  "limits_well_behaved B =
     ((\<forall>low high s. extra_select (super_set_limits B low high s) = extra_select s) \<and>
      (\<forall>s. extra_select (super_clear_limits B s) = extra_select s) \<and>
      (\<forall>s. \<not> truthy (low_mark (super_clear_limits B s))) \<and>
      (\<forall>s. \<not> truthy (high_mark (super_clear_limits B s))))"

subsection \<open>A base class that compiles its extra-select entries\<close>

text \<open>
  \<open>extra_select\<close> maps a name to an SQL fragment that the base class's \<^verbatim>\<open>as_sql\<close> puts into
  the select list. Of that, only this is needed: whenever the base class returns SQL for a
  query, every fragment in the query's \<open>extra_select\<close> occurs in the text.
\<close>

definition compiles_extra_select :: "('b, 'p) QueryClass \<Rightarrow> bool" where
  "compiles_extra_select B =
     (\<forall>wl wa q sql params b. super_as_sql B wl wa q = (Inr (sql, params), b) \<longrightarrow>
        (\<forall>kv \<in> set (extra_select q). sublist (snd kv) sql))"

subsection \<open>Concrete collaborators for the examples\<close>

text \<open>
  Modelled from the spec: \<^verbatim>\<open>util.typecast_decimal\<close> is imported from a module that is not
  part of this file. The specification says the formatted number is parsed as an exact
  decimal value; this reads an optional sign, digits and an optional fraction, and maps the
  empty string to \<^verbatim>\<open>None\<close>.
\<close>

definition digit_value :: "char \<Rightarrow> nat option" where
  "digit_value c = map_of (zip ''0123456789'' [0 ..< 10]) c"

fun read_digits :: "nat \<Rightarrow> string \<Rightarrow> nat option" where
  "read_digits acc [] = Some acc"
| "read_digits acc (c # cs) =
     (case digit_value c of None \<Rightarrow> None | Some d \<Rightarrow> read_digits (10 * acc + d) cs)"

definition typecast_decimal :: "string \<Rightarrow> error + pyvalue" where
  "typecast_decimal s =
     (if s = [] then Inr VNone
      else
        let neg = (take 1 s = ''-'');
            body = (if neg then drop 1 s else s);
            ip = takeWhile (\<lambda>c. c \<noteq> CHR ''.'') body;
            fp = drop 1 (dropWhile (\<lambda>c. c \<noteq> CHR ''.'') body)
        in if ip @ fp = [] then Inl (OtherError ''InvalidOperation'')
           else case read_digits 0 (ip @ fp) of
                  None \<Rightarrow> Inl (OtherError ''InvalidOperation'')
                | Some n \<Rightarrow> Inr (VDecimal (if neg then - int n else int n) (- int (length fp))))"

text \<open>Two driver modules: one whose timestamps are \<^verbatim>\<open>datetime.datetime\<close>, one with its own class.\<close>

definition cx_Oracle :: database where
  "cx_Oracle = \<lparr>LOB = DriverClass ''cx_Oracle.LOB'', Timestamp = DatetimeClass\<rparr>"

definition cx_Oracle_py23 :: database where
  "cx_Oracle_py23 = \<lparr>LOB = DriverClass ''cx_Oracle.LOB'', Timestamp = DriverClass ''cx_Oracle.Timestamp''\<rparr>"

definition other_driver :: database where
  "other_driver = \<lparr>LOB = DriverClass ''other.LOB'', Timestamp = DriverClass ''other.Timestamp''\<rparr>"

text \<open>Fields. Only a decimal field formats numbers; it rejects what is not a number.\<close>

definition no_format_number :: "pyvalue \<Rightarrow> error + string" where
  "no_format_number v = Inl AttributeError"

definition format_number_2 :: "pyvalue \<Rightarrow> error + string" where
  "format_number_2 v = (case v of VInt n \<Rightarrow> Inr (show_int n @ ''.00'') | _ \<Rightarrow> Inl TypeError)"

definition id_field :: field where
  "id_field = \<lparr>field_class = OtherField, empty_strings_allowed = False, db_column = None,
     column = ''id'', format_number = no_format_number\<rparr>"

definition char_field :: field where
  "char_field = \<lparr>field_class = OtherField, empty_strings_allowed = True, db_column = None,
     column = ''name'', format_number = no_format_number\<rparr>"

definition boolean_field :: field where
  "boolean_field = \<lparr>field_class = BooleanField, empty_strings_allowed = False, db_column = None,
     column = ''active'', format_number = no_format_number\<rparr>"

definition time_field :: field where
  "time_field = \<lparr>field_class = TimeField, empty_strings_allowed = True, db_column = None,
     column = ''opens'', format_number = no_format_number\<rparr>"

definition decimal_field :: field where
  "decimal_field = \<lparr>field_class = DecimalField, empty_strings_allowed = True, db_column = None,
     column = ''price'', format_number = format_number_2\<rparr>"

text \<open>
  A small base class. It keeps the caller's ordering, the \<^verbatim>\<open>WHERE\<close> clause and that
  clause's parameters in \<open>rest\<close>. Its SQL lists the extra-select entries, then every column
  of the table; it quotes a name with brackets; its \<^verbatim>\<open>set_limits\<close> stores the bounds and
  its \<^verbatim>\<open>clear_limits\<close> resets them to \<open>0\<close> and \<^verbatim>\<open>None\<close>.
\<close>

record base_attrs =
  order_by :: "string list"
  where_sql :: string
  where_params :: "pyvalue list"

definition select_sql :: "base_attrs query \<Rightarrow> string" where
  "select_sql self =
     ''SELECT '' @ join '', '' (map (\<lambda>(k, v). ''('' @ v @ '') AS '' @ k) (extra_select self)
        @ [''*'']) @ '' FROM '' @ db_table (meta self)
     @ (if where_sql (rest self) = [] then [] else '' WHERE '' @ where_sql (rest self))"

definition plain_base :: "(base_attrs, pyvalue) QueryClass" where
  "plain_base = \<lparr>
     super_as_sql = (\<lambda>wl wa self. (Inr (select_sql self, where_params (rest self)), rest self)),
     pre_sql_setup = (\<lambda>self. (Inr (), rest self)),
     get_columns = (\<lambda>self. (Inr (map column (meta_fields (meta self))), rest self)),
     get_ordering = (\<lambda>self. (Inr (order_by (rest self)), rest self)),
     quote_name_unless_alias = (\<lambda>name self. (Inr (''['' @ name @ '']''), rest self)),
     super_set_limits = (\<lambda>low high self. self\<lparr>low_mark := low, high_mark := high\<rparr>),
     super_clear_limits = (\<lambda>self. self\<lparr>low_mark := Some 0, high_mark := None\<rparr>)\<rparr>"

text \<open>A fresh query over a table \<^verbatim>\<open>person(id, name)\<close>, and one filtered and ordered by name.\<close>

definition person_query :: "base_attrs query" where
  "person_query = \<lparr>low_mark = Some 0, high_mark = None, extra_select = [],
     meta = \<lparr>db_table = ''person'', meta_fields = [id_field, char_field]\<rparr>,
     rest = \<lparr>order_by = [], where_sql = [], where_params = []\<rparr>\<rparr>"

definition smiths_query :: "base_attrs query" where
  "smiths_query = person_query\<lparr>rest :=
     \<lparr>order_by = [''[person].[name] ASC''], where_sql = ''[person].[name] = %s'',
      where_params = [VStr ''Smith'']\<rparr>\<rparr>"

text \<open>The same two queries after \<^verbatim>\<open>set_limits(5, 15)\<close>.\<close>

definition paged_query :: "base_attrs query" where
  "paged_query = set_limits plain_base (Some 5) (Some 15) person_query"

definition paged_smiths_query :: "base_attrs query" where
  "paged_smiths_query = set_limits plain_base (Some 5) (Some 15) smiths_query"

text \<open>The person query after \<^verbatim>\<open>set_limits(5, 0)\<close>: an offset of 5 and a high mark of \<open>0\<close>.\<close>

definition zero_high_query :: "base_attrs query" where
  "zero_high_query = set_limits plain_base (Some 5) (Some 0) person_query"

subsection \<open>What each position of a resolved row is converted from\<close>

text \<open>
  Stated from the behaviour of \<^verbatim>\<open>map(None, ...)\<close> in words, for comparison with
  \<open>resolve_columns\<close>: with \<open>n\<close> extra-select entries, position \<open>i\<close> below \<open>n\<close> (and within
  the row) is the row's value with no field; a later position pairs the row's value, or
  \<^verbatim>\<open>None\<close> past the end of the row, with the field at the same offset, or with no field past
  the end of the field list.
\<close>

definition conversion_at :: "nat \<Rightarrow> pyvalue list \<Rightarrow> field list \<Rightarrow> nat \<Rightarrow> pyvalue \<times> field option" where
  "conversion_at n row flds i =
     (if i < min n (length row) then (row ! i, None)
      else let j = i - min n (length row) in
        ((if n + j < length row then row ! (n + j) else VNone),
         (if j < length flds then Some (flds ! j) else None)))"

text \<open>The module right after import: \<^verbatim>\<open>_classes = {}\<close>; base classes are named by strings here.\<close>

definition module_at_import :: "string module" where
  "module_at_import = \<lparr>classes = Map.empty, created = 0\<rparr>"

text \<open>
  The part of the relation between the marks and the \<^verbatim>\<open>'rn'\<close> entry that every operation
  keeps: while a mark holds a bound, the key is in \<open>extra_select\<close>.
\<close>

definition bound_has_rn :: "'b query \<Rightarrow> bool" where
  "bound_has_rn q \<longleftrightarrow>
     (truthy (low_mark q) \<or> truthy (high_mark q) \<longrightarrow> ''rn'' \<in> set (keys (extra_select q)))"

section \<open>Properties\<close>

subsection \<open>Auxiliary facts\<close>

lemma show_int_5: "show_int 5 = ''5''"
  by (simp add: show_int_def show_nat.simps digit_def)

lemma show_int_15: "show_int 15 = ''15''"
  by (simp add: show_int_def show_nat.simps digit_def)

lemma format_d_truthy: "truthy x \<Longrightarrow> format_d x = Inr (show_int (the x))"
  by (cases x) auto

text \<open>Calls into the base class leave the marks, the extra-select entries and the model alone.\<close>

lemma call_frame:
  "call m s = (r, s') \<Longrightarrow>
     low_mark s' = low_mark s \<and> high_mark s' = high_mark s \<and>
     extra_select s' = extra_select s \<and> meta s' = meta s"
  by (auto simp: call_def split: prod.splits)

lemma default_orderby_frame:
  "default_orderby B s = (r, s') \<Longrightarrow>
     low_mark s' = low_mark s \<and> high_mark s' = high_mark s \<and>
     extra_select s' = extra_select s \<and> meta s' = meta s"
  by (auto simp: default_orderby_def bind_exc_def call_def Let_def
      split: prod.splits sum.splits list.splits)

lemma row_number_select_frame:
  "row_number_select B s = (r, s') \<Longrightarrow>
     low_mark s' = low_mark s \<and> high_mark s' = high_mark s \<and> meta s' = meta s"
  by (auto simp: row_number_select_def bind_exc_def call_def
      split: prod.splits sum.splits if_splits dest!: default_orderby_frame)

lemma row_number_select_extra:
  "row_number_select B s = (r, s') \<Longrightarrow>
     (case r of
        Inl e \<Rightarrow> extra_select s' = extra_select s
      | Inr u \<Rightarrow> (\<exists>ob. extra_select s' =
          AList.update ''rn'' (''ROW_NUMBER() OVER (ORDER BY '' @ ob @ '' )'') (extra_select s)))"
  by (auto simp: row_number_select_def bind_exc_def call_def
      split: prod.splits sum.splits if_splits dest!: default_orderby_frame)

subsection \<open>Value conversion\<close>

text \<open>
  C6. The chain of tests in \<^verbatim>\<open>convert_values\<close> starts with the null test and the boolean
  test: for every field that allows empty strings, converting \<^verbatim>\<open>None\<close> gives the empty
  string; for every \<^verbatim>\<open>BooleanField\<close> or \<^verbatim>\<open>NullBooleanField\<close>, converting \<open>1\<close> gives
  \<^verbatim>\<open>True\<close> and converting \<open>0\<close> gives \<^verbatim>\<open>False\<close>. Neither depends on the driver module or
  on the decimal parser.
\<close>

theorem convert_values_null_and_boolean:
  "(empty_strings_allowed f \<longrightarrow>
      convert_values tcd Db VNone (Some f) = Inr (VUnicode [])) \<and>
   (is_BooleanField (Some f) \<longrightarrow>
      convert_values tcd Db (VInt 1) (Some f) = Inr (VBool True) \<and>
      convert_values tcd Db (VInt 0) (Some f) = Inr (VBool False))"
  by (simp add: convert_values_def)

theorem convert_values_null_and_boolean_witness:
  "empty_strings_allowed char_field \<and>
   convert_values typecast_decimal cx_Oracle VNone (Some char_field) = Inr (VUnicode []) \<and>
   is_BooleanField (Some boolean_field) \<and>
   convert_values typecast_decimal cx_Oracle (VInt 1) (Some boolean_field) = Inr (VBool True) \<and>
   convert_values typecast_decimal cx_Oracle (VInt 0) (Some boolean_field) = Inr (VBool False)"
  using convert_values_null_and_boolean [where f = char_field and tcd = typecast_decimal and Db = cx_Oracle]
    convert_values_null_and_boolean [where f = boolean_field and tcd = typecast_decimal and Db = cx_Oracle]
  by (simp add: char_field_def boolean_field_def)

subsection \<open>SQL generation\<close>

text \<open>
  C4. When no row bound is set (\<open>high_mark\<close> is \<^verbatim>\<open>None\<close> and \<open>low_mark\<close> is \<^verbatim>\<open>None\<close> or the
  initial \<open>0\<close>), \<^verbatim>\<open>as_sql(with_limits=True, with_col_aliases=a)\<close> is the base class's
  \<^verbatim>\<open>as_sql(with_limits=False, with_col_aliases=a)\<close>: the same result, and the object as that
  call leaves it.
\<close>

theorem as_sql_without_bounds:
  assumes "high_mark self = None" and "low_mark self = None \<or> low_mark self = Some 0"
  shows "as_sql B True a self = call (super_as_sql B False a) self"
  using assms by (auto simp: as_sql_def)

theorem as_sql_without_bounds_witness:
  "high_mark person_query = None \<and> low_mark person_query = Some 0 \<and>
   as_sql plain_base True False person_query = (Inr (''SELECT * FROM person'', []), person_query)"
proof -
  have h: "high_mark person_query = None" and l: "low_mark person_query = None \<or> low_mark person_query = Some 0"
    by (simp_all add: person_query_def)
  have "call (super_as_sql plain_base False False) person_query =
      (Inr (''SELECT * FROM person'', []), person_query)"
    by (simp add: call_def plain_base_def select_sql_def person_query_def)
  with as_sql_without_bounds [OF h l, of plain_base False] h show ?thesis
    by (simp add: person_query_def)
qed

lemma paged_query_eq:
  "paged_query = \<lparr>low_mark = Some 5, high_mark = Some 15, extra_select = [(''rn'', ''1'')],
     meta = \<lparr>db_table = ''person'', meta_fields = [id_field, char_field]\<rparr>,
     rest = \<lparr>order_by = [], where_sql = [], where_params = []\<rparr>\<rparr>"
  by (simp add: paged_query_def set_limits_def plain_base_def person_query_def)

lemma paged_smiths_query_eq:
  "paged_smiths_query = \<lparr>low_mark = Some 5, high_mark = Some 15, extra_select = [(''rn'', ''1'')],
     meta = \<lparr>db_table = ''person'', meta_fields = [id_field, char_field]\<rparr>,
     rest = \<lparr>order_by = [''[person].[name] ASC''], where_sql = ''[person].[name] = %s'',
       where_params = [VStr ''Smith'']\<rparr>\<rparr>"
  by (simp add: paged_smiths_query_def set_limits_def plain_base_def smiths_query_def
      person_query_def)

lemma row_number_select_paged_smiths:
  "row_number_select plain_base paged_smiths_query =
     (Inr (), paged_smiths_query\<lparr>extra_select :=
        [(''rn'', ''ROW_NUMBER() OVER (ORDER BY [person].[name] ASC )'')]\<rparr>)"
  by (simp add: row_number_select_def bind_exc_def call_def paged_smiths_query_eq plain_base_def)

lemma update_mem: "(k, v) \<in> set (AList.update k v al)"
  by (induction al) auto

lemma sublist_wrap: "sublist x s \<Longrightarrow> sublist x (pre @ s @ post)"
  by (auto simp: sublist_def) (metis append.assoc)

lemma sublist_within: "sublist x y \<Longrightarrow> sublist y z \<Longrightarrow> sublist x z"
proof -
  assume xy: "sublist x y" and "sublist y z"
  then obtain ps ss where "z = ps @ y @ ss" by (auto simp: sublist_def)
  with xy show "sublist x z" by (simp add: sublist_wrap)
qed

lemma join_sublist: "x \<in> set xs \<Longrightarrow> sublist x (join sep xs)"
proof (induction sep xs rule: join.induct)
  case (1 sep)
  then show ?case by simp
next
  case (2 sep y)
  then show ?case by simp
next
  case (3 sep y z zs)
  show ?case
  proof (cases "x = y")
    case True
    then show ?thesis by simp
  next
    case False
    with 3 have "sublist x (join sep (z # zs))" by simp
    then have "sublist x ((y @ sep) @ join sep (z # zs) @ [])" by (rule sublist_wrap)
    then show ?thesis by simp
  qed
qed

lemma plain_base_compiles_extra_select: "compiles_extra_select plain_base"
proof -
  have "sublist v (select_sql q)" if "(k, v) \<in> set (extra_select q)" for k v and q :: "base_attrs query"
  proof -
    let ?f = "\<lambda>(k, v). ''('' @ v @ '') AS '' @ k"
    from that have "?f (k, v) \<in> set (map ?f (extra_select q) @ [''*''])"
      by force
    then have "sublist (?f (k, v)) (join '', '' (map ?f (extra_select q) @ [''*'']))"
      by (rule join_sublist)
    moreover have "sublist v (?f (k, v))"
      using sublist_appendI [of v "''(''" "'') AS '' @ k"] by simp
    ultimately have "sublist v (join '', '' (map ?f (extra_select q) @ [''*'']))"
      by (rule sublist_within [rotated])
    then have "sublist v (''SELECT '' @ join '', '' (map ?f (extra_select q) @ [''*'']) @
        ('' FROM '' @ db_table (meta q)
         @ (if where_sql (rest q) = [] then [] else '' WHERE '' @ where_sql (rest q))))"
      by (rule sublist_wrap)
    then show ?thesis by (simp add: select_sql_def)
  qed
  then show ?thesis
    by (auto simp: compiles_extra_select_def plain_base_def)
qed

text \<open>
  C1. Take a query whose marks are 5 and 15 and for which the base class reports no ordering
  (\<^verbatim>\<open>get_ordering\<close> returns the empty list), and let the calls into the base class succeed.
  Then \<^verbatim>\<open>as_sql(with_limits=True)\<close> stores under \<^verbatim>\<open>'rn'\<close> the expression
  \<^verbatim>\<open>ROW_NUMBER() OVER (ORDER BY t.c )\<close>, where \<open>t\<close> is the quoted table name and \<open>c\<close> the
  quoted column name of the first declared field (\<^verbatim>\<open>db_column\<close> if it is set, else
  \<^verbatim>\<open>column\<close>); it has the base class generate the inner SQL from the query in that state,
  with limits off and column aliases on; and it returns
  \<^verbatim>\<open>SELECT * FROM (<inner>) WHERE rn > 5 AND rn <= 15\<close> with the inner parameters. When the
  base class compiles its extra-select entries into its SQL, the returned text contains that
  \<^verbatim>\<open>ROW_NUMBER() OVER (ORDER BY t.c )\<close> expression.
\<close>

theorem as_sql_default_ordering:
  assumes "low_mark self = Some 5" and "high_mark self = Some 15"
    and "pre_sql_setup B self = (Inr u, b1)"
    and "get_columns B (self\<lparr>rest := b1\<rparr>) = (Inr out_cols, b2)"
    and "get_ordering B (self\<lparr>rest := b2\<rparr>) = (Inr [], b3)"
    and "quote_name_unless_alias B (db_table (meta self)) (self\<lparr>rest := b3\<rparr>) = (Inr t, b4)"
    and "meta_fields (meta self) = f0 # fs"
    and "quote_name_unless_alias B (py_or (db_column f0) (column f0)) (self\<lparr>rest := b4\<rparr>)
           = (Inr c, b5)"
    and "inner = self\<lparr>rest := b5, extra_select :=
           AList.update ''rn'' (''ROW_NUMBER() OVER (ORDER BY '' @ t @ ''.'' @ c @ '' )'')
             (extra_select self)\<rparr>"
    and "super_as_sql B False True inner = (Inr (sql, params), b6)"
  shows "as_sql B True a self =
     (Inr (''SELECT * FROM ('' @ sql @ '') WHERE rn > 5 AND rn <= 15'', params),
      inner\<lparr>rest := b6\<rparr>) \<and>
     (compiles_extra_select B \<longrightarrow>
        sublist (''ROW_NUMBER() OVER (ORDER BY '' @ t @ ''.'' @ c @ '' )'')
          (''SELECT * FROM ('' @ sql @ '') WHERE rn > 5 AND rn <= 15''))"
proof -
  have rns: "row_number_select B self = (Inr (), inner)"
    using assms(3-9)
    by (simp add: row_number_select_def bind_exc_def call_def default_orderby_def)
  have 1: "as_sql B True a self =
     (Inr (''SELECT * FROM ('' @ sql @ '') WHERE rn > 5 AND rn <= 15'', params),
      inner\<lparr>rest := b6\<rparr>)"
    using assms(1,2,9,10) rns
    by (simp add: as_sql_def bind_exc_def call_def limit_sql_def show_int_5 show_int_15)
  have 2: "sublist (''ROW_NUMBER() OVER (ORDER BY '' @ t @ ''.'' @ c @ '' )'')
          (''SELECT * FROM ('' @ sql @ '') WHERE rn > 5 AND rn <= 15'')"
    if ces: "compiles_extra_select B"
  proof -
    have "(''rn'', ''ROW_NUMBER() OVER (ORDER BY '' @ t @ ''.'' @ c @ '' )'') \<in> set (extra_select inner)"
      unfolding assms(9) by (simp add: update_mem)
    with ces assms(10) have "sublist (''ROW_NUMBER() OVER (ORDER BY '' @ t @ ''.'' @ c @ '' )'') sql"
      unfolding compiles_extra_select_def by fastforce
    then have "sublist (''ROW_NUMBER() OVER (ORDER BY '' @ t @ ''.'' @ c @ '' )'')
        (''SELECT * FROM ('' @ sql @ '') WHERE rn > 5 AND rn <= 15'')"
      by (rule sublist_wrap)
    then show ?thesis .
  qed
  from 1 2 show ?thesis by blast
qed

theorem as_sql_default_ordering_witness:
  "low_mark paged_query = Some 5 \<and> high_mark paged_query = Some 15 \<and>
   get_ordering plain_base paged_query = (Inr [], rest paged_query) \<and>
   compiles_extra_select plain_base \<and>
   as_sql plain_base True False paged_query =
     (Inr (''SELECT * FROM (SELECT (ROW_NUMBER() OVER (ORDER BY [person].[id] )) AS rn, * FROM person) WHERE rn > 5 AND rn <= 15'', []),
      paged_query\<lparr>extra_select := [(''rn'', ''ROW_NUMBER() OVER (ORDER BY [person].[id] )'')]\<rparr>) \<and>
   sublist ''ROW_NUMBER() OVER (ORDER BY [person].[id] )''
     ''SELECT * FROM (SELECT (ROW_NUMBER() OVER (ORDER BY [person].[id] )) AS rn, * FROM person) WHERE rn > 5 AND rn <= 15''"
  using as_sql_default_ordering [where self = paged_query and B = plain_base and a = False
      and u = "()" and ?b1.0 = "rest paged_query" and ?b2.0 = "rest paged_query"
      and ?b3.0 = "rest paged_query" and ?b4.0 = "rest paged_query" and ?b5.0 = "rest paged_query"
      and ?b6.0 = "rest paged_query" and out_cols = "[''id'', ''name'']"
      and t = "''[person]''" and c = "''[id]''" and ?f0.0 = id_field and fs = "[char_field]"
      and inner = "paged_query\<lparr>extra_select := [(''rn'', ''ROW_NUMBER() OVER (ORDER BY [person].[id] )'')]\<rparr>"
      and sql = "''SELECT (ROW_NUMBER() OVER (ORDER BY [person].[id] )) AS rn, * FROM person''"
      and params = "[]"]
    plain_base_compiles_extra_select
  by (simp add: paged_query_eq plain_base_def select_sql_def id_field_def char_field_def)

text \<open>
  C9. Take a query with a bound in force (one of the marks is neither \<^verbatim>\<open>None\<close> nor \<open>0\<close>),
  let the set-up of lines 102--119 succeed and let the inner call of the base class's
  \<^verbatim>\<open>as_sql\<close> return \<open>(sql, params)\<close>. Then \<^verbatim>\<open>as_sql(with_limits=True)\<close> returns some SQL
  text together with exactly \<open>params\<close>; the bounds appear in the text only. The one other
  outcome is the \<^verbatim>\<open>TypeError\<close> that \<^verbatim>\<open>'%d' % self.low_mark\<close> raises when \<open>low_mark\<close> is
  \<^verbatim>\<open>None\<close>.
\<close>

theorem as_sql_params_unmodified:
  assumes "truthy (high_mark self) \<or> truthy (low_mark self)"
    and "row_number_select B self = (Inr u, inner)"
    and "super_as_sql B False True inner = (Inr (sql, params), b)"
  shows "(low_mark self = None \<and> fst (as_sql B True a self) = Inl TypeError) \<or>
         (\<exists>sql'. fst (as_sql B True a self) = Inr (sql', params))"
proof -
  from assms(2) have lm: "low_mark inner = low_mark self"
    by (auto dest: row_number_select_frame)
  show ?thesis
  proof (cases "low_mark self")
    case None
    with assms lm show ?thesis
      by (auto simp: as_sql_def bind_exc_def call_def limit_sql_def)
  next
    case (Some l)
    with assms lm show ?thesis
      by (auto simp: as_sql_def bind_exc_def call_def limit_sql_def Let_def format_d_truthy)
  qed
qed

theorem as_sql_params_unmodified_witness:
  "truthy (high_mark paged_smiths_query) \<and>
   low_mark paged_smiths_query = Some 5 \<and>
   (\<exists>sql'. fst (as_sql plain_base True False paged_smiths_query) = Inr (sql', [VStr ''Smith'']))"
proof -
  let ?inner = "paged_smiths_query\<lparr>extra_select :=
        [(''rn'', ''ROW_NUMBER() OVER (ORDER BY [person].[name] ASC )'')]\<rparr>"
  have t: "truthy (high_mark paged_smiths_query) \<or> truthy (low_mark paged_smiths_query)"
    by (simp add: paged_smiths_query_eq)
  have i: "super_as_sql plain_base False True ?inner =
      (Inr (select_sql ?inner, [VStr ''Smith'']), rest ?inner)"
    by (simp add: plain_base_def paged_smiths_query_eq)
  from as_sql_params_unmodified [OF t row_number_select_paged_smiths i, of False]
  show ?thesis by (simp add: paged_smiths_query_eq)
qed

text \<open>
  The text that lines 125--133 build, in general: the upper-bound clause is there exactly
  when \<open>high_mark\<close> is true as a Python value, that is, neither \<^verbatim>\<open>None\<close> nor \<open>0\<close>.
\<close>

lemma as_sql_limit_clauses:
  assumes "truthy (high_mark self) \<or> truthy (low_mark self)"
    and "row_number_select B self = (Inr u, inner)"
    and "super_as_sql B False True inner = (Inr (sql, params), b)"
    and "low_mark self = Some l"
  shows "fst (as_sql B True a self) =
     Inr (''SELECT * FROM ('' @ sql @ '') WHERE rn > '' @ show_int l @
          (if truthy (high_mark self) then '' AND rn <= '' @ show_int (the (high_mark self))
           else []), params)"
proof -
  from assms(2) have "low_mark inner = low_mark self" "high_mark inner = high_mark self"
    by (auto dest: row_number_select_frame)
  with assms show ?thesis
    by (auto simp: as_sql_def bind_exc_def call_def limit_sql_def Let_def format_d_truthy)
qed

text \<open>
  C5. With only a low mark of 5 the filter is \<open>rn > 5\<close> and nothing follows it
  (\<open>as_sql_limit_clauses\<close>). The clause \<^verbatim>\<open>AND rn <= <high>\<close> is not appended whenever a high
  mark is set, though: line 129 tests \<^verbatim>\<open>if self.high_mark:\<close>, so a high mark of \<open>0\<close> counts
  as none. After \<^verbatim>\<open>set_limits(5, 0)\<close> the SQL ends in \<^verbatim>\<open>WHERE rn > 5\<close>, with no upper bound.
\<close>

theorem as_sql_high_mark_zero:
  "low_mark zero_high_query = Some 5 \<and> high_mark zero_high_query = Some 0 \<and>
   fst (as_sql plain_base True False zero_high_query) =
     Inr (''SELECT * FROM (SELECT (ROW_NUMBER() OVER (ORDER BY [person].[id] )) AS rn, * FROM person) WHERE rn > 5'', [])"
  by (simp add: zero_high_query_def set_limits_def plain_base_def person_query_def as_sql_def
      row_number_select_def default_orderby_def bind_exc_def call_def limit_sql_def
      select_sql_def id_field_def show_int_5)

subsection \<open>Timestamps\<close>

text \<open>
  C7, amended. Let \<open>v\<close> be an instance of the driver's \<^verbatim>\<open>Timestamp\<close> class (and not of its
  \<^verbatim>\<open>LOB\<close> class) whose components make a valid \<^verbatim>\<open>datetime.datetime\<close> \<open>dt\<close>, and let the field
  be anything but a \<^verbatim>\<open>DecimalField\<close> (no field included). Then \<^verbatim>\<open>convert_values\<close> returns:
  \<open>dt\<close> itself for a \<^verbatim>\<open>DateTimeField\<close>; else its date for a \<^verbatim>\<open>DateField\<close>; else its time for
  a \<^verbatim>\<open>TimeField\<close> or when the date is 1900-01-01; else its date when hour, minute, second
  and microsecond are all zero; else \<open>dt\<close> itself.
\<close>

theorem convert_values_timestamp:
  assumes "isinstance v (Timestamp Db)" and "\<not> isinstance v (LOB Db)"
    and "to_datetime v = Inr dt" and "\<not> is_DecimalField fld"
  shows "convert_values tcd Db v fld =
     Inr (if is_DateTimeField fld then VDateTime dt
          else if is_DateField fld then VDate (date_of dt)
          else if is_TimeField fld \<or> (year dt = 1900 \<and> month dt = 1 \<and> day dt = 1)
            then VTime (time_of dt)
          else if hour dt = 0 \<and> minute dt = 0 \<and> second dt = 0 \<and> microsecond dt = 0
            then VDate (date_of dt)
          else VDateTime dt)"
  using assms by (cases v) (auto simp add: convert_values_def cast_timestamp_def)

theorem convert_values_timestamp_witness:
  "convert_values typecast_decimal cx_Oracle
      (VDateTime \<lparr>year = 1900, month = 1, day = 1, hour = 14, minute = 30, second = 0,
         microsecond = 0\<rparr>) (Some time_field) =
     Inr (VTime \<lparr>time_hour = 14, time_minute = 30, time_second = 0, time_microsecond = 0\<rparr>) \<and>
   convert_values typecast_decimal cx_Oracle_py23
      (VTimestamp ''cx_Oracle.Timestamp'' \<lparr>ts_year = 2020, ts_month = 5, ts_day = 1, ts_hour = 0,
         ts_minute = 0, ts_second = 0, ts_fsecond = 0\<rparr>) None =
     Inr (VDate \<lparr>date_year = 2020, date_month = 5, date_day = 1\<rparr>)"
  using convert_values_timestamp [where tcd = typecast_decimal and Db = cx_Oracle
      and fld = "Some time_field"
      and v = "VDateTime \<lparr>year = 1900, month = 1, day = 1, hour = 14, minute = 30, second = 0,
         microsecond = 0\<rparr>"
      and dt = "\<lparr>year = 1900, month = 1, day = 1, hour = 14, minute = 30, second = 0,
         microsecond = 0\<rparr>"]
    convert_values_timestamp [where tcd = typecast_decimal and Db = cx_Oracle_py23
      and fld = None
      and v = "VTimestamp ''cx_Oracle.Timestamp'' \<lparr>ts_year = 2020, ts_month = 5, ts_day = 1,
         ts_hour = 0, ts_minute = 0, ts_second = 0, ts_fsecond = 0\<rparr>"
      and dt = "\<lparr>year = 2020, month = 5, day = 1, hour = 0, minute = 0, second = 0,
         microsecond = 0\<rparr>"]
  by (simp add: cx_Oracle_def cx_Oracle_py23_def time_field_def date_of_def time_of_def
      datetime_datetime_def days_in_month_def)

text \<open>
  The claim as first stated covered every field. With a \<^verbatim>\<open>DecimalField\<close> the test of line 50
  comes before the timestamp test of line 62, so the value goes to \<^verbatim>\<open>format_number\<close>: the
  timestamp 1900-01-01 14:30:00 does not become the time 14:30:00.
\<close>

theorem convert_values_timestamp_decimal_field:
  "isinstance (VDateTime \<lparr>year = 1900, month = 1, day = 1, hour = 14, minute = 30, second = 0,
         microsecond = 0\<rparr>) (Timestamp cx_Oracle) \<and>
   convert_values typecast_decimal cx_Oracle
      (VDateTime \<lparr>year = 1900, month = 1, day = 1, hour = 14, minute = 30, second = 0,
         microsecond = 0\<rparr>) (Some decimal_field) = Inl TypeError"
  by (simp add: convert_values_def cx_Oracle_def decimal_field_def format_number_2_def)

subsection \<open>Resolving a row\<close>

lemma convert_into_Inr:
  "(convert_into tcd Db acc ps = Inr vals) =
     (\<exists>ws. vals = acc @ ws \<and> list_all2 (\<lambda>(v, f) w. convert_values tcd Db v f = Inr w) ps ws)"
  by (induction ps arbitrary: acc vals) (auto split: sum.splits simp: list_all2_Cons1)

lemma length_map_None: "length (map_None vs fs) = max (length vs) (length fs)"
  by (induction vs fs rule: map_None.induct) auto

lemma map_None_nth:
  "i < max (length vs) (length fs) \<Longrightarrow>
     map_None vs fs ! i =
       ((if i < length vs then vs ! i else VNone), (if i < length fs then Some (fs ! i) else None))"
proof (induction vs fs arbitrary: i rule: map_None.induct)
  case 1
  then show ?case by simp
next
  case (2 v vs)
  then show ?case by (cases i) auto
next
  case (3 f fs)
  then show ?case by (cases i) auto
next
  case (4 v vs f fs)
  then show ?case by (cases i) auto
qed

lemma resolve_columns_split:
  "(resolve_columns tcd Db self row flds = Inr vals) =
      (\<exists>ws1. convert_into tcd Db [] (map (\<lambda>v. (v, None)) (take (length (keys (extra_select self))) row)) = Inr ws1 \<and>
         convert_into tcd Db ws1 (map_None (drop (length (keys (extra_select self))) row) flds) = Inr vals)"
  unfolding resolve_columns_def Let_def
  by (cases "convert_into tcd Db [] (map (\<lambda>v. (v, None)) (take (length (keys (extra_select self))) row))") simp_all

lemma list_all2_append_split:
  "list_all2 P (xs @ ys) zs = (\<exists>us vs. list_all2 P xs us \<and> zs = us @ vs \<and> list_all2 P ys vs)"
proof
  assume "list_all2 P (xs @ ys) zs"
  then obtain us vs where "zs = us @ vs" "list_all2 P xs us" "list_all2 P ys vs"
    unfolding list_all2_append1 by blast
  then show "\<exists>us vs. list_all2 P xs us \<and> zs = us @ vs \<and> list_all2 P ys vs" by blast
next
  assume "\<exists>us vs. list_all2 P xs us \<and> zs = us @ vs \<and> list_all2 P ys vs"
  then obtain us vs where "zs = us @ vs" "list_all2 P xs us" "list_all2 P ys vs" by blast
  then show "list_all2 P (xs @ ys) zs"
    by (simp add: list_all2_appendI)
qed

lemma resolve_columns_all2:
  "(resolve_columns tcd Db self row flds = Inr vals) =
     list_all2 (\<lambda>(v, f) w. convert_values tcd Db v f = Inr w)
       (map (\<lambda>v. (v, None)) (take (length (keys (extra_select self))) row)
          @ map_None (drop (length (keys (extra_select self))) row) flds) vals"
  unfolding resolve_columns_split list_all2_append_split convert_into_Inr
  by simp

lemma pairs_nth:
  assumes "i < min n (length row) + max (length row - n) (length flds)"
  shows "(map (\<lambda>v. (v, None)) (take n row) @ map_None (drop n row) flds) ! i =
     conversion_at n row flds i"
proof (cases "i < min n (length row)")
  case True
  then show ?thesis by (simp add: conversion_at_def nth_append)
next
  case False
  with assms have "i - min n (length row) < max (length (drop n row)) (length flds)"
    by auto
  from map_None_nth [OF this] False show ?thesis
    by (auto simp: conversion_at_def nth_append Let_def min_def add.commute)
qed

text \<open>
  C2, amended. Let \<open>n\<close> be the number of extra-select keys. \<^verbatim>\<open>resolve_columns\<close> converts the
  first \<open>n\<close> values of the row (fewer if the row is shorter) with no field, and pairs the
  remaining values positionally with the fields, filling the shorter of the two sequences
  with \<^verbatim>\<open>None\<close>: a value beyond the field list is converted with no field, a field beyond
  the row converts \<^verbatim>\<open>None\<close>. It returns \<open>vals\<close> exactly when \<open>vals\<close> has
  \<open>min n (length row) + max (length row - n) (length flds)\<close> entries and each entry is the
  conversion of its position; a conversion that raises makes the whole call raise.
\<close>

theorem resolve_columns_pads:
  assumes "n = length (keys (extra_select self))"
  shows "resolve_columns tcd Db self row flds = Inr vals \<longleftrightarrow>
     length vals = min n (length row) + max (length row - n) (length flds) \<and>
     (\<forall>i < length vals.
        convert_values tcd Db (fst (conversion_at n row flds i)) (snd (conversion_at n row flds i))
          = Inr (vals ! i))"
proof -
  let ?ps = "map (\<lambda>v. (v, None)) (take n row) @ map_None (drop n row) flds"
  let ?m = "min n (length row) + max (length row - n) (length flds)"
  have len: "length ?ps = ?m"
    by (simp add: length_map_None min.commute)
  have nth: "?ps ! i = conversion_at n row flds i" if "i < ?m" for i
    using that by (rule pairs_nth)
  have "resolve_columns tcd Db self row flds = Inr vals \<longleftrightarrow>
      list_all2 (\<lambda>(v, f) w. convert_values tcd Db v f = Inr w) ?ps vals"
    unfolding assms by (rule resolve_columns_all2)
  also have "\<dots> \<longleftrightarrow> length ?ps = length vals \<and>
      (\<forall>i < length ?ps. convert_values tcd Db (fst (?ps ! i)) (snd (?ps ! i)) = Inr (vals ! i))"
    unfolding list_all2_conv_all_nth by (simp add: case_prod_beta)
  also have "\<dots> \<longleftrightarrow> length vals = ?m \<and>
     (\<forall>i < length vals.
        convert_values tcd Db (fst (conversion_at n row flds i)) (snd (conversion_at n row flds i))
          = Inr (vals ! i))"
    unfolding len using nth by auto
  finally show ?thesis .
qed

lemma resolve_short_row:
  "resolve_columns typecast_decimal cx_Oracle person_query [VInt 7] [id_field, char_field]
     = Inr [VInt 7, VUnicode []]"
  by (simp add: resolve_columns_def keys_def person_query_def convert_values_def cx_Oracle_def
      id_field_def char_field_def)

theorem resolve_columns_pads_witness:
  "resolve_columns typecast_decimal cx_Oracle person_query [VInt 7] [id_field, char_field]
     = Inr [VInt 7, VUnicode []] \<and>
   length [VInt 7, VUnicode []] = min 0 (length [VInt 7]) + max (length [VInt 7] - 0) (length [id_field, char_field])"
proof -
  have n: "(0::nat) = length (keys (extra_select person_query))"
    by (simp add: keys_def person_query_def)
  from resolve_columns_pads [OF n, of typecast_decimal cx_Oracle "[VInt 7]" "[id_field, char_field]" "[VInt 7, VUnicode []]"]
    resolve_short_row
  show ?thesis by simp
qed

text \<open>
  The claim as first stated had the pairing stop at the shorter sequence. A row of three
  values against two fields and no extra-select entry yields three values, not two.
\<close>

theorem resolve_columns_longer_row:
  "resolve_columns typecast_decimal cx_Oracle person_query
      [VInt 7, VUnicode ''Ann'', VInt 3] [id_field, char_field]
     = Inr [VInt 7, VUnicode ''Ann'', VInt 3] \<and>
   length (keys (extra_select person_query))
     + min (length [VInt 7, VUnicode ''Ann'', VInt 3]) (length [id_field, char_field]) = 2"
  by (simp add: resolve_columns_def keys_def person_query_def convert_values_def cx_Oracle_def
      id_field_def char_field_def)

subsection \<open>The class cache\<close>

lemma query_class_stores:
  "classes (snd (query_class T Db m)) T = Some (fst (query_class T Db m))"
  by (simp add: query_class_def Let_def split: option.splits)

lemma query_class_keeps:
  "classes m T = Some c \<Longrightarrow> classes (snd (query_class T' Db m)) T = Some c"
  by (auto simp: query_class_def Let_def split: option.splits)

lemma query_class_calls_keeps:
  "classes m T = Some c \<Longrightarrow> classes (query_class_calls cs m) T = Some c"
proof (induction cs arbitrary: m)
  case Nil
  then show ?case by simp
next
  case (Cons p cs)
  obtain T' Db where p: "p = (T', Db)" by (cases p)
  from Cons.prems have "classes (snd (query_class T' Db m)) T = Some c"
    by (rule query_class_keeps)
  then have "classes (query_class_calls cs (snd (query_class T' Db m))) T = Some c"
    by (rule Cons.IH)
  with p show ?case by simp
qed

lemma query_class_hit:
  "classes m T = Some c \<Longrightarrow> query_class T Db m = (c, m)"
  by (simp add: query_class_def)

text \<open>
  C8. For every base class \<open>T\<close>, the class that \<^verbatim>\<open>query_class(T, ...)\<close> returns is in
  \<^verbatim>\<open>_classes\<close> under \<open>T\<close> afterwards, whether the call built it or found it; and after any
  further calls of \<^verbatim>\<open>query_class\<close>, a call with \<open>T\<close> (and any driver module) returns that
  same class object and leaves the module as it is.
\<close>

theorem query_class_cached:
  "classes (snd (query_class T D1 m)) T = Some (fst (query_class T D1 m)) \<and>
   query_class T D2 (query_class_calls cs (snd (query_class T D1 m))) =
     (fst (query_class T D1 m), query_class_calls cs (snd (query_class T D1 m)))"
proof -
  have s: "classes (snd (query_class T D1 m)) T = Some (fst (query_class T D1 m))"
    by (rule query_class_stores)
  from s have "classes (query_class_calls cs (snd (query_class T D1 m))) T
      = Some (fst (query_class T D1 m))"
    by (rule query_class_calls_keeps)
  then have "query_class T D2 (query_class_calls cs (snd (query_class T D1 m))) =
     (fst (query_class T D1 m), query_class_calls cs (snd (query_class T D1 m)))"
    by (rule query_class_hit)
  with s show ?thesis by simp
qed

text \<open>
  C10. The cache is keyed on the base class alone. If \<open>T\<close> is not cached and
  \<^verbatim>\<open>query_class(T, D1)\<close> is called, then after any further calls a call
  \<^verbatim>\<open>query_class(T, D2)\<close> returns the class that closes over \<open>D1\<close>: its \<^verbatim>\<open>convert_values\<close>
  is the one that tests against \<open>D1\<close>'s \<^verbatim>\<open>LOB\<close> and \<^verbatim>\<open>Timestamp\<close>.
\<close>

theorem query_class_keeps_first_driver:
  assumes "classes m T = None"
  shows "Database (fst (query_class T D2 (query_class_calls cs (snd (query_class T D1 m))))) = D1 \<and>
     class_convert_values tcd (fst (query_class T D2 (query_class_calls cs (snd (query_class T D1 m)))))
       = convert_values tcd D1"
proof -
  from assms have d: "Database (fst (query_class T D1 m)) = D1"
    by (simp add: query_class_def Let_def)
  have "classes (query_class_calls cs (snd (query_class T D1 m))) T
      = Some (fst (query_class T D1 m))"
    by (rule query_class_calls_keeps) (rule query_class_stores)
  then have "fst (query_class T D2 (query_class_calls cs (snd (query_class T D1 m))))
      = fst (query_class T D1 m)"
    by (simp add: query_class_hit)
  with d show ?thesis by (simp add: class_convert_values_def)
qed

theorem query_class_keeps_first_driver_witness:
  "classes module_at_import ''Query'' = None \<and>
   Database (fst (query_class ''Query'' other_driver
      (snd (query_class ''Query'' cx_Oracle module_at_import)))) = cx_Oracle \<and>
   class_convert_values typecast_decimal (fst (query_class ''Query'' other_driver
      (snd (query_class ''Query'' cx_Oracle module_at_import)))) (VLob ''other.LOB'' ''abc'') None
     = Inr (VLob ''other.LOB'' ''abc'') \<and>
   convert_values typecast_decimal other_driver (VLob ''other.LOB'' ''abc'') None = Inr (VStr ''abc'')"
proof -
  have n: "classes module_at_import ''Query'' = None"
    by (simp add: module_at_import_def)
  have a: "convert_values typecast_decimal cx_Oracle (VLob ''other.LOB'' ''abc'') None
      = Inr (VLob ''other.LOB'' ''abc'')"
    by (simp add: convert_values_def cx_Oracle_def)
  have b: "convert_values typecast_decimal other_driver (VLob ''other.LOB'' ''abc'') None
      = Inr (VStr ''abc'')"
    by (simp add: convert_values_def other_driver_def)
  from query_class_keeps_first_driver [OF n, of other_driver "[]" cx_Oracle typecast_decimal] n a b
  show ?thesis by simp
qed

subsection \<open>The \<^verbatim>\<open>'rn'\<close> entry\<close>

lemma keys_update: "set (keys (AList.update k v al)) = insert k (set (keys al))"
  by (simp add: keys_def dom_update)

lemma keys_delete: "set (keys (AList.delete k al)) = set (keys al) - {k}"
  by (simp add: keys_def delete_keys)

lemma limit_sql_state: "snd (limit_sql sql params s) = s"
  by (simp add: limit_sql_def Let_def split: sum.splits)

lemma as_sql_state:
  "(low_mark (snd (as_sql B wl wa q)) = low_mark q \<and>
    high_mark (snd (as_sql B wl wa q)) = high_mark q) \<and>
   (extra_select (snd (as_sql B wl wa q)) = extra_select q \<or>
    ((truthy (high_mark q) \<or> truthy (low_mark q)) \<and>
     (\<exists>ob. extra_select (snd (as_sql B wl wa q)) =
        AList.update ''rn'' (''ROW_NUMBER() OVER (ORDER BY '' @ ob @ '' )'') (extra_select q))))"
proof (cases "wl \<and> (truthy (high_mark q) \<or> truthy (low_mark q))")
  case False
  then have "as_sql B wl wa q = call (super_as_sql B False wa) q"
    by (auto simp: as_sql_def)
  then show ?thesis
    by (cases "call (super_as_sql B False wa) q") (auto dest: call_frame)
next
  case True
  obtain r s1 where rns: "row_number_select B q = (r, s1)"
    by (cases "row_number_select B q")
  note f1 = row_number_select_frame [OF rns] and e1 = row_number_select_extra [OF rns]
  show ?thesis
  proof (cases r)
    case (Inl e)
    with True rns have "as_sql B wl wa q = (Inl e, s1)"
      by (simp add: as_sql_def bind_exc_def)
    with f1 e1 Inl show ?thesis by simp
  next
    case (Inr u)
    obtain r2 s2 where c: "call (super_as_sql B False True) s1 = (r2, s2)"
      by (cases "call (super_as_sql B False True) s1")
    note f2 = call_frame [OF c]
    have "snd (as_sql B wl wa q) = s2"
      using True rns Inr c
      by (cases r2) (auto simp: as_sql_def bind_exc_def limit_sql_state split: prod.splits)
    with f1 f2 e1 Inr True show ?thesis by auto
  qed
qed

lemma delete_filter: "AList.delete k al = filter (\<lambda>kv. fst kv \<noteq> k) al"
  by (induction al) auto

lemma clear_limits_extra:
  "extra_select (clear_limits B q) = AList.delete ''rn'' (extra_select (super_clear_limits B q))"
  by (simp add: clear_limits_def Let_def keys_def)

lemma plain_base_limits_well_behaved: "limits_well_behaved plain_base"
  by (simp add: limits_well_behaved_def plain_base_def)

text \<open>What each operation does to the entry.\<close>

lemma set_limits_placeholder:
  "map_of (extra_select (set_limits B low high q)) ''rn'' = Some ''1''"
  by (simp add: set_limits_def Let_def update_conv')

lemma clear_limits_removes_rn:
  "''rn'' \<notin> set (keys (extra_select (clear_limits B q))) \<and>
   extra_select (clear_limits B q) =
     filter (\<lambda>kv. fst kv \<noteq> ''rn'') (extra_select (super_clear_limits B q))"
  by (simp add: clear_limits_extra keys_delete) (simp add: delete_filter)

lemma as_sql_unbounded_keeps_extra_select:
  assumes "\<not> (wl \<and> (truthy (high_mark q) \<or> truthy (low_mark q)))"
  shows "extra_select (snd (as_sql B wl wa q)) = extra_select q"
proof -
  from assms have "as_sql B wl wa q = call (super_as_sql B False wa) q"
    by (auto simp: as_sql_def)
  then show ?thesis
    by (cases "call (super_as_sql B False wa) q") (auto dest: call_frame)
qed

lemma as_sql_finalises_rn:
  assumes "truthy (high_mark q) \<or> truthy (low_mark q)"
    and "fst (as_sql B True wa q) = Inr r"
  shows "\<exists>ob. map_of (extra_select (snd (as_sql B True wa q))) ''rn'' =
     Some (''ROW_NUMBER() OVER (ORDER BY '' @ ob @ '' )'')"
proof -
  obtain r1 s1 where rns: "row_number_select B q = (r1, s1)"
    by (cases "row_number_select B q")
  show ?thesis
  proof (cases r1)
    case (Inl e)
    with assms(1) rns have "as_sql B True wa q = (Inl e, s1)"
      by (simp add: as_sql_def bind_exc_def)
    with assms(2) show ?thesis by simp
  next
    case (Inr u)
    with row_number_select_extra [OF rns] obtain ob where
      ob: "extra_select s1 =
        AList.update ''rn'' (''ROW_NUMBER() OVER (ORDER BY '' @ ob @ '' )'') (extra_select q)"
      by auto
    obtain r2 s2 where c: "call (super_as_sql B False True) s1 = (r2, s2)"
      by (cases "call (super_as_sql B False True) s1")
    have "snd (as_sql B True wa q) = s2"
      using assms(1) rns Inr c
      by (cases r2) (auto simp: as_sql_def bind_exc_def limit_sql_state split: prod.splits)
    with call_frame [OF c] ob show ?thesis
      by (auto simp: update_conv')
  qed
qed

text \<open>While a mark holds a bound the key is present, whatever was called before.\<close>

lemma set_limits_bound_has_rn: "bound_has_rn (set_limits B low high q)"
  by (simp add: bound_has_rn_def set_limits_def Let_def keys_update)

lemma clear_limits_bound_has_rn:
  "limits_well_behaved B \<Longrightarrow> bound_has_rn (clear_limits B q)"
  by (auto simp: bound_has_rn_def clear_limits_def Let_def limits_well_behaved_def)

lemma as_sql_bound_has_rn:
  assumes "bound_has_rn q"
  shows "bound_has_rn (snd (as_sql B wl wa q))"
  using assms as_sql_state [of B wl wa q]
  by (auto simp: bound_has_rn_def keys_update)

lemma run_bound_has_rn:
  "limits_well_behaved B \<Longrightarrow> bound_has_rn q \<Longrightarrow> bound_has_rn (run B q es)"
proof (induction es arbitrary: q)
  case Nil
  then show ?case by simp
next
  case (Cons e es)
  have "bound_has_rn (step B q e)"
  proof (cases e)
    case (SetLimits low high)
    then show ?thesis by (simp add: set_limits_bound_has_rn)
  next
    case ClearLimits
    with Cons.prems(1) show ?thesis by (simp add: clear_limits_bound_has_rn)
  next
    case (AsSql wl wa)
    with Cons.prems(2) show ?thesis by (simp add: as_sql_bound_has_rn)
  qed
  with Cons.prems(1) have "bound_has_rn (run B (step B q e) es)"
    by (rule Cons.IH)
  then show ?case by simp
qed

text \<open>
  C3. The claim is that \<^verbatim>\<open>'rn'\<close> is in \<open>extra_select\<close> if and only if a row-limiting
  operation is configured. One half holds in every reachable state (while a mark holds a
  bound the key is present), and so do the parts about the single operations above. The
  other half does not: \<^verbatim>\<open>set_limits\<close> writes the placeholder on line 142 whatever its
  arguments. After \<^verbatim>\<open>set_limits(None, None)\<close> on a fresh query the key is present, no mark
  holds a bound, and \<^verbatim>\<open>as_sql\<close> returns at line 97: the SQL is not paginated, the
  placeholder is compiled into it as a column, and the entry is never replaced by a
  \<^verbatim>\<open>ROW_NUMBER()\<close> expression.
\<close>

theorem set_limits_without_bounds:
  "''rn'' \<in> set (keys (extra_select (set_limits plain_base None None person_query))) \<and>
   low_mark (set_limits plain_base None None person_query) = None \<and>
   high_mark (set_limits plain_base None None person_query) = None \<and>
   fst (as_sql plain_base True False (set_limits plain_base None None person_query)) =
     Inr (''SELECT (1) AS rn, * FROM person'', []) \<and>
   map_of (extra_select
     (snd (as_sql plain_base True False (set_limits plain_base None None person_query)))) ''rn''
     = Some ''1''"
  by (simp add: set_limits_def plain_base_def person_query_def keys_def as_sql_def call_def
      select_sql_def)

end
